theory Spec2Isabelle
  imports Main
begin

section \<open>Paths and strings of the host platform\<close>

text \<open>
  The handler imports \<open>join\<close> from Node's \<open>path\<close> module and calls
  \<open>String.prototype.replace\<close> with a string pattern. Both are modelled here for the
  POSIX flavour of \<open>path\<close> (separator \<open>/\<close>), the flavour of the specification's
  examples. A path is a list of characters.
\<close>

type_synonym path = string

text \<open>The segments of a path: the pieces between separators, empty pieces included.\<close>

fun split_sep :: "string \<Rightarrow> string list" where
  "split_sep [] = [[]]"
| "split_sep (c # cs) =
     (if c = CHR ''/'' then [] # split_sep cs
      else (case split_sep cs of [] \<Rightarrow> [[c]] | s # ss \<Rightarrow> (c # s) # ss))"

fun join_sep :: "string list \<Rightarrow> string" where
  "join_sep [] = []"
| "join_sep [s] = s"
| "join_sep (s # t # ss) = s @ CHR ''/'' # join_sep (t # ss)"

text \<open>
  One step of \<open>normalizeString\<close>: \<open>res\<close> holds the segments kept so far, last segment
  first. Empty segments and \<open>.\<close> are dropped; \<open>..\<close> removes the last kept segment
  unless there is none or it is \<open>..\<close> itself, in which case it is kept only when the
  path may climb above its root (relative paths).
\<close>

definition normalize_step :: "bool \<Rightarrow> string list \<Rightarrow> string \<Rightarrow> string list" where
  "normalize_step allowAboveRoot res seg =
     (if seg = [] \<or> seg = ''.'' then res
      else if seg = ''..'' then
        (case res of
           [] \<Rightarrow> if allowAboveRoot then [''..''] else []
         | lastSegment # rest \<Rightarrow>
             if lastSegment \<noteq> ''..'' then rest
             else if allowAboveRoot then ''..'' # res else res)
      else seg # res)"

definition normalizeString :: "string \<Rightarrow> bool \<Rightarrow> string" where
  "normalizeString p allowAboveRoot =
     join_sep (rev (foldl (normalize_step allowAboveRoot) [] (split_sep p)))"

text \<open>\<open>path.normalize\<close>: an empty path is \<open>.\<close>; a trailing separator is kept.\<close>

definition normalize :: "path \<Rightarrow> path" where
  "normalize p =
     (if p = [] then ''.''
      else
        let isAbsolute = (hd p = CHR ''/'');
            trailingSeparator = (last p = CHR ''/'');
            res = normalizeString p (\<not> isAbsolute)
        in if res = [] then
             (if isAbsolute then ''/'' else if trailingSeparator then ''./'' else ''.'')
           else (if isAbsolute then ''/'' else []) @ res
                  @ (if trailingSeparator then ''/'' else []))"

text \<open>
  \<open>path.join(...args)\<close>: the non-empty arguments are joined with the separator and
  the result is normalised; with no non-empty argument the result is \<open>.\<close>.
\<close>

definition join :: "string list \<Rightarrow> path" where
  "join args =
     (let parts = filter (\<lambda>a. a \<noteq> []) args
      in if parts = [] then ''.'' else normalize (join_sep parts))"

text \<open>
  \<open>s.replace(pattern, replacement)\<close> with a string pattern: only the first occurrence
  of the pattern is replaced, wherever it occurs. The handler's replacement is the empty
  string, so the \<open>$\<close> patterns of a replacement string play no part.
\<close>

fun replace :: "string \<Rightarrow> string \<Rightarrow> string \<Rightarrow> string" where
  "replace [] pat rep = (if pat = [] then rep else [])"
| "replace (c # cs) pat rep =
     (if take (length pat) (c # cs) = pat then rep @ drop (length pat) (c # cs)
      else c # replace cs pat rep)"

section \<open>Documents\<close>

text \<open>
  A number of a document is a double. A finite one is kept as an integer, for only
  whether it is zero matters to the handler. Negative zero and the infinities, which
  \<open>JSON.parse\<close> yields for \<open>-0\<close> and for a literal beyond the range of a double, are
  kept apart: \<open>JSON.stringify\<close> writes them as \<open>0\<close> and as \<open>null\<close>.
\<close>

datatype number = Finite int | NegativeZero | PositiveInfinity | NegativeInfinity

text \<open>
  The value \<open>readJSON\<close> yields. An object is the list of its members in order, with
  distinct keys as \<open>JSON.parse\<close> builds it.
\<close>

datatype json =
    JNull
  | JBool bool
  | JNum number
  | JStr string
  | JArr "json list"
  | JObj "(string \<times> json) list"

datatype error = ENOENT | EACCES | EIO | SyntaxError | TypeError

text \<open>The truth value of a document value in a condition.\<close>

fun truthy :: "json \<Rightarrow> bool" where
  "truthy JNull = False"
| "truthy (JBool b) = b"
| "truthy (JNum x) = (x \<noteq> Finite 0 \<and> x \<noteq> NegativeZero)"
| "truthy (JStr s) = (s \<noteq> [])"
| "truthy (JArr xs) = True"
| "truthy (JObj kvs) = True"

text \<open>
  Assigning a member of an object: an existing key keeps its place, a new key goes last.
\<close>

fun set_member :: "string \<Rightarrow> json \<Rightarrow> (string \<times> json) list \<Rightarrow> (string \<times> json) list" where
  "set_member k v [] = [(k, v)]"
| "set_member k v ((k', v') # kvs) =
     (if k' = k then (k, v) # kvs else (k', v') # set_member k v kvs)"

text \<open>
  \<open>json.metadata\<close>: reading a property of \<open>null\<close> throws; an object yields the member
  or \<open>undefined\<close> (\<open>None\<close>); every other value has no such property.
\<close>

fun get_metadata :: "json \<Rightarrow> error + json option" where
  "get_metadata JNull = Inl TypeError"
| "get_metadata (JObj kvs) = Inr (map_of kvs ''metadata'')"
| "get_metadata j = Inr None"

text \<open>
  \<open>md.editorPath = v\<close> on a truthy value \<open>md\<close>: an object gets the member; an array gets
  a property that is no element and so never reaches the serialised text; on a number,
  string or boolean the assignment throws in the strict mode of a module.
\<close>

fun set_editorPath :: "json \<Rightarrow> string \<Rightarrow> error + json" where
  "set_editorPath (JObj kvs) v = Inr (JObj (set_member ''editorPath'' (JStr v) kvs))"
| "set_editorPath (JArr xs) v = Inr (JArr xs)"
| "set_editorPath j v = Inl TypeError"

text \<open>The document once its \<open>metadata\<close> member has been mutated in place.\<close>

fun with_metadata :: "json \<Rightarrow> json \<Rightarrow> json" where
  "with_metadata (JObj kvs) md = JObj (set_member ''metadata'' md kvs)"
| "with_metadata j md = j"

text \<open>
  The value read back from the text \<open>JSON.stringify\<close> writes for a value: an infinity
  has become \<open>null\<close>, negative zero has become zero, everything else is as it was.
\<close>

primrec as_written :: "json \<Rightarrow> json" where
  "as_written JNull = JNull"
| "as_written (JBool b) = JBool b"
| "as_written (JNum x) =
     (case x of
        Finite n \<Rightarrow> JNum (Finite n)
      | NegativeZero \<Rightarrow> JNum (Finite 0)
      | PositiveInfinity \<Rightarrow> JNull
      | NegativeInfinity \<Rightarrow> JNull)"
| "as_written (JStr s) = JStr s"
| "as_written (JArr xs) = JArr (map as_written xs)"
| "as_written (JObj kvs) = JObj (map (map_prod id as_written) kvs)"

section \<open>The file system\<close>

text \<open>
  What lies at a path: nothing, text that is no document, or a document, kept as the
  value a read of it yields. A read of a path may fail with an I/O error. A write of a
  path succeeds, or fails before the file is opened and leaves it as it was, or fails
  after the file has been opened and truncated and leaves whatever part of the new text
  had been written.
\<close>

datatype fcontent = Missing | Malformed string | Document json

datatype write_fault = WriteOk | FailsBeforeOpen | FailsAfterTruncate fcontent

record filesystem =
  content :: "path \<Rightarrow> fcontent"
  readFault :: "path \<Rightarrow> bool"
  writeFault :: "path \<Rightarrow> write_fault"

record write_options =
  spaces :: string
  encoding :: string

definition readJSON :: "filesystem \<Rightarrow> path \<Rightarrow> error + json" where
  "readJSON fs p =
     (if readFault fs p then Inl EIO
      else case content fs p of
             Missing \<Rightarrow> Inl ENOENT
           | Malformed t \<Rightarrow> Inl SyntaxError
           | Document j \<Rightarrow> Inr j)"

text \<open>
  \<open>writeJSON\<close> serialises the value and writes the text: the outcome, and the file
  system it leaves.
\<close>

definition writeJSON :: "filesystem \<Rightarrow> path \<Rightarrow> json \<Rightarrow> write_options
                           \<Rightarrow> (error + unit) \<times> filesystem" where
  "writeJSON fs p j opts =
     (case writeFault fs p of
        WriteOk \<Rightarrow> (Inr (), fs\<lparr>content := (content fs)(p := Document (as_written j))\<rparr>)
      | FailsBeforeOpen \<Rightarrow> (Inl EACCES, fs)
      | FailsAfterTruncate c \<Rightarrow> (Inl EIO, fs\<lparr>content := (content fs)(p := c)\<rparr>))"

section \<open>The editor and the move handler\<close>

text \<open>
  A material carries an optional \<open>metadata\<close> object, which carries an optional
  \<open>editorPath\<close> string beside its other members. The scene of the editor is taken
  to be loaded, as the handler asserts, and an \<open>editorPath\<close> to be a string, as the
  editor stores it.
\<close>

record material_metadata =
  editorPath :: "string option"
  members :: "(string \<times> json) list"

record material =
  name :: string
  metadata :: "material_metadata option"

record editor =
  materials :: "material list"
  assetsDirectory :: path
  disk :: filesystem

text \<open>The value of \<open>mat.metadata?.editorPath\<close>: \<open>None\<close> stands for \<open>undefined\<close>.\<close>

definition editorPath_of :: "material \<Rightarrow> string option" where
  "editorPath_of mat = (case metadata mat of None \<Rightarrow> None | Some md \<Rightarrow> editorPath md)"

text \<open>What the handler does, in the order it does it.\<close>

datatype event =
    SetEditorPath nat string
  | ReadJSON path
  | WriteJSON path json write_options

datatype outcome = Resolved | Rejected error

text \<open>
  The callback of \<open>materials.forEach\<close>, for the material at index \<open>i\<close>: a material
  without metadata, without \<open>editorPath\<close> or with an empty one is left; one whose
  \<open>editorPath\<close> joined to the assets directory is \<open>from\<close> gets the new path.
\<close>

definition callback :: "path \<Rightarrow> path \<Rightarrow> string \<Rightarrow> nat \<Rightarrow> material \<Rightarrow> material \<times> event list" where
  "callback assetsDir from newEditorPath i mat =
     (case metadata mat of
        None \<Rightarrow> (mat, [])
      | Some md \<Rightarrow>
          (case editorPath md of
             None \<Rightarrow> (mat, [])
           | Some ep \<Rightarrow>
               if ep = [] then (mat, [])
               else if join [assetsDir, ep] = from
                 then (mat\<lparr>metadata := Some (md\<lparr>editorPath := Some newEditorPath\<rparr>)\<rparr>,
                       [SetEditorPath i newEditorPath])
                 else (mat, [])))"

fun forEach :: "(nat \<Rightarrow> material \<Rightarrow> material \<times> event list) \<Rightarrow> nat \<Rightarrow> material list
                  \<Rightarrow> material list \<times> event list" where
  "forEach f i [] = ([], [])"
| "forEach f i (m # ms) =
     (let (m', e) = f i m;
          (ms', es) = forEach f (Suc i) ms
      in (m' # ms', e @ es))"

text \<open>The statements between reading the document and writing it.\<close>

definition patch :: "json \<Rightarrow> string \<Rightarrow> error + json" where
  "patch json newEditorPath =
     (case get_metadata json of
        Inl e \<Rightarrow> Inl e
      | Inr None \<Rightarrow> Inr json
      | Inr (Some md) \<Rightarrow>
          if truthy md then
            (case set_editorPath md newEditorPath of
               Inl e \<Rightarrow> Inl e
             | Inr md' \<Rightarrow> Inr (with_metadata json md'))
          else Inr json)"

definition json_options :: write_options where
  "json_options = \<lparr>spaces = [CHR 0x09], encoding = ''utf-8''\<rparr>"

text \<open>
  The body of the \<open>try\<close> block: the first error ends it. The result is the outcome,
  the file system left behind and the events.
\<close>

definition try_block :: "filesystem \<Rightarrow> path \<Rightarrow> string
                           \<Rightarrow> (error + unit) \<times> filesystem \<times> event list" where
  "try_block fs from newEditorPath =
     (case readJSON fs from of
        Inl e \<Rightarrow> (Inl e, fs, [ReadJSON from])
      | Inr json \<Rightarrow>
          (case patch json newEditorPath of
             Inl e \<Rightarrow> (Inl e, fs, [ReadJSON from])
           | Inr json' \<Rightarrow>
               (fst (writeJSON fs from json' json_options),
                snd (writeJSON fs from json' json_options),
                [ReadJSON from, WriteJSON from json' json_options])))"

text \<open>The empty \<open>catch\<close> clause: an error is dropped.\<close>

definition catch_silently :: "error + unit \<Rightarrow> error + unit" where
  "catch_silently r = (case r of Inl e \<Rightarrow> Inr () | Inr u \<Rightarrow> Inr u)"

definition newEditorPath :: "path \<Rightarrow> path \<Rightarrow> string" where
  "newEditorPath assetsDir to = replace to (join [assetsDir, ''/'']) []"

definition moveFile :: "editor \<Rightarrow> path \<Rightarrow> path \<Rightarrow> outcome \<times> editor \<times> event list" where
  "moveFile ed from to =
     (let nep = newEditorPath (assetsDirectory ed) to;
          (mats, ev1) = forEach (callback (assetsDirectory ed) from nep) 0 (materials ed);
          (r, fs', ev2) = try_block (disk ed) from nep
      in case catch_silently r of
           Inl e \<Rightarrow> (Rejected e, ed\<lparr>materials := mats, disk := fs'\<rparr>, ev1 @ ev2)
         | Inr u \<Rightarrow> (Resolved, ed\<lparr>materials := mats, disk := fs'\<rparr>, ev1 @ ev2))"

section \<open>Notions used to state the properties\<close>

text \<open>What the callback leaves in place of a material, whatever its index.\<close>

definition updated :: "path \<Rightarrow> path \<Rightarrow> string \<Rightarrow> material \<Rightarrow> material" where
  "updated assetsDir from nep mat = fst (callback assetsDir from nep 0 mat)"

text \<open>
  In the specification's words: the reference has an \<open>editorPath\<close> which, resolved
  against the asset root, is the path \<open>p\<close>. An empty \<open>editorPath\<close> counts as none.
\<close>

definition resolves_to :: "path \<Rightarrow> material \<Rightarrow> path \<Rightarrow> bool" where
  "resolves_to assetsDir mat p =
     (case editorPath_of mat of
        None \<Rightarrow> False
      | Some ep \<Rightarrow> ep \<noteq> [] \<and> join [assetsDir, ep] = p)"

text \<open>
  In the specification's words: \<open>rel\<close> is the path \<open>p\<close> made relative to the asset
  root, that is, the relative path which resolved against the asset root is \<open>p\<close>.
\<close>

definition relative_form :: "path \<Rightarrow> path \<Rightarrow> path \<Rightarrow> bool" where
  "relative_form assetsDir p rel = (take 1 rel \<noteq> ''/'' \<and> join [assetsDir, rel] = p)"

text \<open>A segment that names a file or directory: not empty, no separator, not a dot name.\<close>

definition plain :: "string \<Rightarrow> bool" where
  "plain s = (s \<noteq> [] \<and> CHR ''/'' \<notin> set s \<and> s \<noteq> ''.'' \<and> s \<noteq> ''..'')"

text \<open>\<open>s.includes(pat)\<close>: the pattern occurs somewhere in the string.\<close>

fun occurs_in :: "string \<Rightarrow> string \<Rightarrow> bool" where
  "occurs_in [] pat = (pat = [])"
| "occurs_in (c # cs) pat = (take (length pat) (c # cs) = pat \<or> occurs_in cs pat)"

text \<open>The events that change the materials, and the change each makes.\<close>

fun is_mutation :: "event \<Rightarrow> bool" where
  "is_mutation (SetEditorPath i v) = True"
| "is_mutation e = False"

fun is_write :: "event \<Rightarrow> bool" where
  "is_write (WriteJSON p j opts) = True"
| "is_write e = False"

fun apply_event :: "material list \<Rightarrow> event \<Rightarrow> material list" where
  "apply_event mats (SetEditorPath i v) =
     mats[i := (mats ! i)\<lparr>metadata := map_option (\<lambda>md. md\<lparr>editorPath := Some v\<rparr>) (metadata (mats ! i))\<rparr>]"
| "apply_event mats e = mats"

section \<open>The parts of a run\<close>

lemma callback_fst_index: "fst (callback d f n i m) = updated d f n m"
  by (simp add: callback_def updated_def split: option.splits)

lemma forEach_callback_fst:
  "fst (forEach (callback d f n) i ms) = map (updated d f n) ms"
  by (induction ms arbitrary: i) (simp_all add: callback_fst_index case_prod_beta)

lemma moveFile_outcome: "fst (moveFile ed from to) = Resolved"
  by (simp add: moveFile_def catch_silently_def Let_def case_prod_beta split: sum.splits)

lemma moveFile_materials:
  "materials (fst (snd (moveFile ed from to))) =
     map (updated (assetsDirectory ed) from (newEditorPath (assetsDirectory ed) to)) (materials ed)"
  by (simp add: moveFile_def catch_silently_def Let_def case_prod_beta forEach_callback_fst
      split: sum.splits)

lemma moveFile_assetsDirectory:
  "assetsDirectory (fst (snd (moveFile ed from to))) = assetsDirectory ed"
  by (simp add: moveFile_def catch_silently_def Let_def case_prod_beta split: sum.splits)

lemma moveFile_disk:
  "disk (fst (snd (moveFile ed from to))) =
     fst (snd (try_block (disk ed) from (newEditorPath (assetsDirectory ed) to)))"
  by (simp add: moveFile_def catch_silently_def Let_def case_prod_beta split: sum.splits)

lemma moveFile_events:
  "snd (snd (moveFile ed from to)) =
     snd (forEach (callback (assetsDirectory ed) from (newEditorPath (assetsDirectory ed) to)) 0
            (materials ed))
     @ snd (snd (try_block (disk ed) from (newEditorPath (assetsDirectory ed) to)))"
  by (simp add: moveFile_def catch_silently_def Let_def case_prod_beta split: sum.splits)

lemma updated_match:
  "metadata m = Some md \<Longrightarrow> editorPath md = Some ep \<Longrightarrow> ep \<noteq> [] \<Longrightarrow> join [d, ep] = f \<Longrightarrow>
   updated d f n m = m\<lparr>metadata := Some (md\<lparr>editorPath := Some n\<rparr>)\<rparr>"
  by (simp add: updated_def callback_def)

lemma updated_other:
  "editorPath_of m = None \<or> editorPath_of m = Some []
     \<or> (\<exists>ep. editorPath_of m = Some ep \<and> join [d, ep] \<noteq> f) \<Longrightarrow>
   updated d f n m = m"
  by (auto simp add: updated_def callback_def editorPath_of_def split: option.splits)

subsection \<open>Documents and the try block\<close>

lemma map_of_set_member:
  "map_of (set_member k v kvs) k' = (if k' = k then Some v else map_of kvs k')"
  by (induction kvs) auto

lemma set_member_same: "map_of kvs k = Some v \<Longrightarrow> set_member k v kvs = kvs"
  by (induction kvs) (auto split: if_splits)

lemma set_member_twice: "set_member k v (set_member k v kvs) = set_member k v kvs"
  by (induction kvs) auto

lemma keys_set_member:
  "map fst (set_member k v kvs) = (if k \<in> fst ` set kvs then map fst kvs else map fst kvs @ [k])"
  by (induction kvs) (auto simp add: rev_image_eqI)

lemma patch_object:
  "map_of kvs ''metadata'' = Some (JObj mkvs) \<Longrightarrow>
   patch (JObj kvs) n =
     Inr (JObj (set_member ''metadata'' (JObj (set_member ''editorPath'' (JStr n) mkvs)) kvs))"
  by (simp add: patch_def)

lemma get_metadata_Some: "get_metadata j = Inr (Some md) \<Longrightarrow> \<exists>kvs. j = JObj kvs \<and> map_of kvs ''metadata'' = Some md"
  by (cases j) auto

lemma map_of_as_written:
  "map_of (map (map_prod id as_written) kvs) k = map_option as_written (map_of kvs k)"
  by (induction kvs) auto

lemma as_written_set_member:
  "map (map_prod id as_written) (set_member k v kvs) =
     set_member k (as_written v) (map (map_prod id as_written) kvs)"
  by (induction kvs) auto

lemma as_written_idem: "as_written (as_written j) = as_written j"
  by (induction j) (auto split: number.splits)

lemma as_written_falsy: "\<not> truthy md \<Longrightarrow> \<not> truthy (as_written md)"
  by (cases md) (auto split: number.splits)

lemma get_metadata_as_written:
  "get_metadata j = Inr None \<Longrightarrow>
   get_metadata (as_written j) = Inl TypeError \<or> get_metadata (as_written j) = Inr None"
  by (cases j) (auto simp add: map_of_as_written split: number.splits)

text \<open>
  Patching the document that was written: it fails, or it gives a document that is
  written as the same text again.
\<close>

lemma patch_as_written:
  assumes "patch json n = Inr j'"
  shows "(\<exists>e. patch (as_written j') n = Inl e)
         \<or> (\<exists>j2. patch (as_written j') n = Inr j2 \<and> as_written j2 = as_written j')"
proof (cases "get_metadata json")
  case (Inl e)
  with assms show ?thesis by (simp add: patch_def)
next
  case (Inr m)
  show ?thesis
  proof (cases m)
    case None
    with Inr assms have j': "j' = json" by (simp add: patch_def)
    from Inr None have "get_metadata (as_written json) = Inl TypeError
        \<or> get_metadata (as_written json) = Inr None"
      by (simp add: get_metadata_as_written)
    then have "patch (as_written json) n = Inl TypeError
        \<or> patch (as_written json) n = Inr (as_written json)"
      by (auto simp add: patch_def)
    then show ?thesis
      by (auto simp add: j' as_written_idem)
  next
    case (Some md)
    with Inr obtain kvs where j: "json = JObj kvs" and m: "map_of kvs ''metadata'' = Some md"
      using get_metadata_Some by blast
    show ?thesis
    proof (cases "truthy md")
      case False
      with j m assms have j': "j' = json" by (simp add: patch_def)
      have "patch (as_written json) n = Inr (as_written json)"
        using j m as_written_falsy [OF False] by (simp add: patch_def map_of_as_written)
      then show ?thesis by (simp add: j' as_written_idem)
    next
      case True
      show ?thesis
      proof (cases md)
        case (JObj mkvs)
        with j m assms have j': "j' = JObj (set_member ''metadata''
            (JObj (set_member ''editorPath'' (JStr n) mkvs)) kvs)"
          by (simp add: patch_def)
        have "patch (as_written j') n = Inr (as_written j')"
          by (simp add: j' patch_def as_written_set_member map_of_set_member set_member_twice)
        then show ?thesis by (simp add: as_written_idem)
      next
        case (JArr xs)
        with j m assms have j': "j' = json"
          by (simp add: patch_def set_member_same)
        have "map_of (map (map_prod id as_written) kvs) ''metadata'' = Some (JArr (map as_written xs))"
          using m JArr by (simp add: map_of_as_written)
        then have "patch (as_written json) n = Inr (as_written json)"
          using j by (simp add: patch_def set_member_same)
        then show ?thesis by (simp add: j' as_written_idem)
      qed (use j m assms True in \<open>auto simp add: patch_def split: if_splits\<close>)
    qed
  qed
qed

lemma try_block_patched:
  "readJSON fs from = Inr json \<Longrightarrow> patch json n = Inr j' \<Longrightarrow>
   try_block fs from n =
     (fst (writeJSON fs from j' json_options), snd (writeJSON fs from j' json_options),
      [ReadJSON from, WriteJSON from j' json_options])"
  by (simp add: try_block_def)

lemma try_block_events:
  "\<exists>ds. snd (snd (try_block fs from n)) = ReadJSON from # ds \<and> filter is_mutation ds = []"
  by (simp add: try_block_def split: sum.splits)

text \<open>What the \<open>try\<close> block leaves is left as it is by the \<open>try\<close> block run again.\<close>

lemma try_block_twice:
  "fst (snd (try_block (fst (snd (try_block fs from n))) from n)) = fst (snd (try_block fs from n))"
proof (cases "readJSON fs from")
  case (Inl e)
  then show ?thesis by (simp add: try_block_def)
next
  case (Inr json)
  show ?thesis
  proof (cases "patch json n")
    case (Inl e)
    with Inr show ?thesis by (simp add: try_block_def)
  next
    case p: (Inr j')
    note tb = try_block_patched [OF Inr p]
    show ?thesis
    proof (cases "writeFault fs from")
      case FailsBeforeOpen
      then have "fst (snd (try_block fs from n)) = fs"
        by (simp add: tb writeJSON_def)
      then show ?thesis by simp
    next
      case (FailsAfterTruncate c)
      let ?fs1 = "fs\<lparr>content := (content fs)(from := c)\<rparr>"
      have fs1: "fst (snd (try_block fs from n)) = ?fs1"
        using FailsAfterTruncate by (simp add: tb writeJSON_def)
      have "fst (snd (try_block ?fs1 from n)) = ?fs1"
        using FailsAfterTruncate
        by (simp add: try_block_def writeJSON_def split: sum.splits)
      with fs1 show ?thesis by simp
    next
      case WriteOk
      let ?fs1 = "fs\<lparr>content := (content fs)(from := Document (as_written j'))\<rparr>"
      have fs1: "fst (snd (try_block fs from n)) = ?fs1"
        using WriteOk by (simp add: tb writeJSON_def)
      from Inr have "\<not> readFault fs from"
        by (auto simp add: readJSON_def split: if_splits)
      then have r1: "readJSON ?fs1 from = Inr (as_written j')"
        by (simp add: readJSON_def)
      from patch_as_written [OF p] have "fst (snd (try_block ?fs1 from n)) = ?fs1"
      proof
        assume "\<exists>e. patch (as_written j') n = Inl e"
        with r1 show ?thesis by (auto simp add: try_block_def)
      next
        assume "\<exists>j2. patch (as_written j') n = Inr j2 \<and> as_written j2 = as_written j'"
        then obtain j2 where "patch (as_written j') n = Inr j2"
          and "as_written j2 = as_written j'" by blast
        with r1 WriteOk show ?thesis
          by (simp add: try_block_def writeJSON_def)
      qed
      with fs1 show ?thesis by simp
    qed
  qed
qed

lemma scan_events:
  "e \<in> set (snd (forEach (callback d f n) i ms)) \<Longrightarrow> \<exists>k. e = SetEditorPath k n"
  by (induction ms arbitrary: i)
     (auto simp add: case_prod_beta callback_def split: option.splits if_splits)

lemma scan_events_no_write: "filter is_write (snd (forEach (callback d f n) i ms)) = []"
  by (auto simp add: filter_empty_conv dest: scan_events)

lemma scan_events_mutations:
  "filter is_mutation (snd (forEach (callback d f n) i ms)) = snd (forEach (callback d f n) i ms)"
  by (auto simp add: filter_id_conv dest: scan_events)

subsection \<open>Replaying the scan\<close>

lemma callback_replay:
  "foldl apply_event (pre @ m # ms) (snd (callback d f n (length pre) m)) =
     pre @ updated d f n m # ms"
  by (simp add: callback_def updated_def split: option.splits)

lemma scan_replay:
  "foldl apply_event (pre @ ms) (snd (forEach (callback d f n) (length pre) ms)) =
     pre @ map (updated d f n) ms"
proof (induction ms arbitrary: pre)
  case Nil
  show ?case by simp
next
  case (Cons m ms)
  have "foldl apply_event (pre @ m # ms) (snd (forEach (callback d f n) (length pre) (m # ms))) =
        foldl apply_event (foldl apply_event (pre @ m # ms) (snd (callback d f n (length pre) m)))
          (snd (forEach (callback d f n) (Suc (length pre)) ms))"
    by (simp add: case_prod_beta)
  also have "\<dots> = foldl apply_event ((pre @ [updated d f n m]) @ ms)
          (snd (forEach (callback d f n) (length (pre @ [updated d f n m])) ms))"
    by (simp add: callback_replay)
  also have "\<dots> = (pre @ [updated d f n m]) @ map (updated d f n) ms"
    by (rule Cons.IH)
  finally show ?case by simp
qed

subsection \<open>A second run\<close>

lemma updated_idem: "updated d f n (updated d f n m) = updated d f n m"
  by (simp add: updated_def callback_def split: option.splits)

lemma updated_no_match:
  "n = [] \<or> join [d, n] \<noteq> f \<Longrightarrow> snd (callback d f n i (updated d f n m)) = []"
  by (auto simp add: updated_def callback_def split: option.splits)

lemma scan_no_match:
  "n = [] \<or> join [d, n] \<noteq> f \<Longrightarrow>
   snd (forEach (callback d f n) i (map (updated d f n) ms)) = []"
  by (induction ms arbitrary: i) (simp_all add: case_prod_beta updated_no_match)

lemma moveFile_twice_state:
  "fst (snd (moveFile (fst (snd (moveFile ed from to))) from to)) = fst (snd (moveFile ed from to))"
proof -
  let ?ed1 = "fst (snd (moveFile ed from to))"
  have m: "materials (fst (snd (moveFile ?ed1 from to))) = materials ?ed1"
    by (simp add: moveFile_materials moveFile_assetsDirectory updated_idem)
  have a: "assetsDirectory (fst (snd (moveFile ?ed1 from to))) = assetsDirectory ?ed1"
    by (simp add: moveFile_assetsDirectory)
  have d: "disk (fst (snd (moveFile ?ed1 from to))) = disk ?ed1"
    by (simp add: moveFile_disk moveFile_assetsDirectory try_block_twice)
  have e: "editor.more (fst (snd (moveFile ?ed1 from to))) = editor.more ?ed1"
    by simp
  from m a d e show ?thesis
    by (rule editor.equality)
qed

subsection \<open>Replacing and normalising\<close>

lemma replace_prefix: "replace (pat @ rest) pat rep = rep @ rest"
proof (cases "pat @ rest")
  case Nil
  then show ?thesis by simp
next
  case (Cons a list)
  have "replace (a # list) pat rep =
      (if take (length pat) (a # list) = pat then rep @ drop (length pat) (a # list)
       else a # replace list pat rep)"
    by simp
  then have "replace (pat @ rest) pat rep =
      (if take (length pat) (pat @ rest) = pat then rep @ drop (length pat) (pat @ rest)
       else a # replace list pat rep)"
    by (simp only: Cons)
  then show ?thesis by simp
qed

lemma replace_absent: "\<not> occurs_in s pat \<Longrightarrow> replace s pat rep = s"
  by (induction s) auto

text \<open>What \<open>occurs_in\<close> decides.\<close>

lemma occurs_in_iff: "occurs_in s pat \<longleftrightarrow> (\<exists>ps ss. s = ps @ pat @ ss)"
proof (induction s)
  case Nil
  show ?case by auto
next
  case (Cons c cs)
  have "take (length pat) (c # cs) = pat \<longleftrightarrow> (\<exists>ss. c # cs = pat @ ss)"
    by (metis append_eq_conv_conj)
  moreover have "(\<exists>ps ss. c # cs = ps @ pat @ ss) \<longleftrightarrow>
      (\<exists>ss. c # cs = pat @ ss) \<or> (\<exists>ps ss. cs = ps @ pat @ ss)"
  proof
    assume "\<exists>ps ss. c # cs = ps @ pat @ ss"
    then obtain ps ss where e: "c # cs = ps @ pat @ ss" by blast
    show "(\<exists>ss. c # cs = pat @ ss) \<or> (\<exists>ps ss. cs = ps @ pat @ ss)"
    proof (cases ps)
      case Nil
      with e show ?thesis by auto
    next
      case (Cons p ps')
      with e have "cs = ps' @ pat @ ss" by simp
      then show ?thesis by blast
    qed
  next
    assume "(\<exists>ss. c # cs = pat @ ss) \<or> (\<exists>ps ss. cs = ps @ pat @ ss)"
    then show "\<exists>ps ss. c # cs = ps @ pat @ ss"
    proof
      assume "\<exists>ss. c # cs = pat @ ss"
      then show ?thesis by (metis append_Nil)
    next
      assume "\<exists>ps ss. cs = ps @ pat @ ss"
      then obtain ps ss where "cs = ps @ pat @ ss" by blast
      then have "c # cs = (c # ps) @ pat @ ss" by simp
      then show ?thesis by blast
    qed
  qed
  ultimately show ?case
    using Cons.IH by simp
qed

lemma newEditorPath_under:
  "to = join [d, ''/''] @ rest \<Longrightarrow> newEditorPath d to = rest"
  by (simp add: newEditorPath_def replace_prefix)

lemma newEditorPath_absent:
  "\<not> occurs_in to (join [d, ''/'']) \<Longrightarrow> newEditorPath d to = to"
  by (simp add: newEditorPath_def replace_absent)

lemma split_sep_plain: "CHR ''/'' \<notin> set s \<Longrightarrow> split_sep s = [s]"
  by (induction s) auto

lemma split_sep_append:
  "CHR ''/'' \<notin> set s \<Longrightarrow> split_sep (s @ CHR ''/'' # r) = s # split_sep r"
  by (induction s) auto

lemma join_sep_append:
  "rs \<noteq> [] \<Longrightarrow> ts \<noteq> [] \<Longrightarrow> join_sep (rs @ ts) = join_sep rs @ CHR ''/'' # join_sep ts"
  by (induction rs rule: join_sep.induct) (auto simp add: neq_Nil_conv)

lemma split_join_sep_append:
  "ss \<noteq> [] \<Longrightarrow> \<forall>s\<in>set ss. CHR ''/'' \<notin> set s \<Longrightarrow>
   split_sep (join_sep ss @ CHR ''/'' # r) = ss @ split_sep r"
  by (induction ss rule: join_sep.induct) (auto simp add: split_sep_append)

lemma split_join_sep:
  "ss \<noteq> [] \<Longrightarrow> \<forall>s\<in>set ss. CHR ''/'' \<notin> set s \<Longrightarrow> split_sep (join_sep ss) = ss"
  by (induction ss rule: join_sep.induct) (auto simp add: split_sep_append split_sep_plain)

lemma normalize_step_plain: "plain s \<Longrightarrow> normalize_step a st s = s # st"
  by (simp add: normalize_step_def plain_def)

lemma normalize_step_empty: "normalize_step a st [] = st"
  by (simp add: normalize_step_def)

lemma foldl_plain:
  "\<forall>s\<in>set ss. plain s \<Longrightarrow> foldl (normalize_step a) st ss = rev ss @ st"
  by (induction ss arbitrary: st) (simp_all add: normalize_step_plain)

lemma join_sep_nonempty: "ss \<noteq> [] \<Longrightarrow> \<forall>s\<in>set ss. plain s \<Longrightarrow> join_sep ss \<noteq> []"
  by (induction ss rule: join_sep.induct) (auto simp add: plain_def)

lemma plain_ends: "plain s \<Longrightarrow> last s \<noteq> CHR ''/'' \<and> take 1 s \<noteq> ''/''"
proof -
  assume p: "plain s"
  then obtain c cs where s: "s = c # cs"
    by (auto simp add: plain_def neq_Nil_conv)
  with p have "c \<noteq> CHR ''/''"
    by (auto simp add: plain_def)
  moreover have "last s \<in> set s"
    using s by (metis last_in_set list.distinct(1))
  ultimately show ?thesis
    using p s by (auto simp add: plain_def)
qed

lemma join_sep_last:
  "ss \<noteq> [] \<Longrightarrow> \<forall>s\<in>set ss. plain s \<Longrightarrow> last (join_sep ss) \<noteq> CHR ''/''"
proof (induction ss rule: join_sep.induct)
  case 1
  then show ?case by simp
next
  case (2 s)
  then show ?case by (simp add: plain_ends)
next
  case (3 s t ss)
  then have "join_sep (t # ss) \<noteq> []"
    by (intro join_sep_nonempty) simp_all
  with 3 show ?case by simp
qed

lemma join_sep_first:
  "ss \<noteq> [] \<Longrightarrow> \<forall>s\<in>set ss. plain s \<Longrightarrow> take 1 (join_sep ss) \<noteq> ''/''"
proof (induction ss rule: join_sep.induct)
  case 1
  then show ?case by simp
next
  case (2 s)
  then show ?case using plain_ends [of s] by simp
next
  case (3 s t ss)
  then have "plain s" by simp
  then have "s \<noteq> []" and "take 1 s \<noteq> ''/''"
    using plain_ends [of s] by (simp_all add: plain_def)
  then show ?case by (cases s) simp_all
qed

lemma normalize_absolute:
  assumes "ss \<noteq> []" and "\<forall>s\<in>set ss. plain s"
  shows "normalize (CHR ''/'' # join_sep ss) = CHR ''/'' # join_sep ss"
proof -
  have sl: "\<forall>s\<in>set ss. CHR ''/'' \<notin> set s"
    using assms(2) by (simp add: plain_def)
  have "split_sep (CHR ''/'' # join_sep ss) = [] # ss"
    using assms(1) sl by (simp add: split_join_sep)
  then have "normalizeString (CHR ''/'' # join_sep ss) False = join_sep ss"
    using assms(2) by (simp add: normalizeString_def normalize_step_empty foldl_plain)
  moreover have "join_sep ss \<noteq> []" and "last (join_sep ss) \<noteq> CHR ''/''"
    using assms by (simp_all add: join_sep_nonempty join_sep_last)
  ultimately show ?thesis
    by (simp add: normalize_def)
qed

lemma join_root_separator:
  assumes "rs \<noteq> []" and "\<forall>s\<in>set rs. plain s"
  shows "join [CHR ''/'' # join_sep rs, ''/''] = CHR ''/'' # join_sep rs @ ''/''"
proof -
  have sl: "\<forall>s\<in>set rs. CHR ''/'' \<notin> set s"
    using assms(2) by (simp add: plain_def)
  have "split_sep (CHR ''/'' # join_sep rs @ ''//'') = [] # rs @ [[], []]"
    using assms(1) sl by (simp add: split_join_sep_append)
  then have "normalizeString (CHR ''/'' # join_sep rs @ ''//'') False = join_sep rs"
    using assms(2) by (simp add: normalizeString_def normalize_step_empty foldl_plain)
  moreover have "join_sep rs \<noteq> []"
    using assms by (simp add: join_sep_nonempty)
  ultimately have "normalize (CHR ''/'' # join_sep rs @ ''//'') = CHR ''/'' # join_sep rs @ ''/''"
    by (simp add: normalize_def)
  then show ?thesis
    by (simp add: join_def)
qed

lemma under_root_relative:
  assumes "rs \<noteq> []" and "ts \<noteq> []"
      and "\<forall>s\<in>set rs. plain s" and "\<forall>s\<in>set ts. plain s"
  shows "newEditorPath (CHR ''/'' # join_sep rs) (CHR ''/'' # join_sep (rs @ ts)) = join_sep ts \<and>
         relative_form (CHR ''/'' # join_sep rs) (CHR ''/'' # join_sep (rs @ ts)) (join_sep ts)"
proof -
  let ?d = "CHR ''/'' # join_sep rs" and ?to = "CHR ''/'' # join_sep (rs @ ts)"
  have "?to = join [?d, ''/''] @ join_sep ts"
    using assms by (simp add: join_root_separator join_sep_append)
  then have n: "newEditorPath ?d ?to = join_sep ts"
    by (rule newEditorPath_under)
  have ne: "join_sep ts \<noteq> []"
    using assms(2,4) by (rule join_sep_nonempty)
  have "join [?d, join_sep ts] = normalize ?to"
    using assms(1,2) ne by (simp add: join_def join_sep_append)
  also have "\<dots> = ?to"
    using normalize_absolute [of "rs @ ts"] assms by auto
  finally have "join [?d, join_sep ts] = ?to" .
  moreover have "take 1 (join_sep ts) \<noteq> ''/''"
    using assms(2,4) by (rule join_sep_first)
  ultimately show ?thesis
    using n by (simp add: relative_form_def)
qed

section \<open>The in-memory references\<close>

text \<open>
  Claim C1, as amended. Every material whose \<open>editorPath\<close>, joined to the assets
  directory, is \<open>from\<close> has after \<open>moveFile\<close> the new path computed from \<open>to\<close> as its
  \<open>editorPath\<close> and is otherwise as before. Whenever \<open>to\<close> lies below the assets
  directory (assets directory \<open>/r1/.../rn\<close>, destination \<open>/r1/.../rn/t1/.../tm\<close>, plain
  segments), that path is \<open>t1/.../tm\<close>, the form of \<open>to\<close> relative to the assets
  directory. The index \<open>i\<close> is any index of the collection, so every such material is
  updated, not only the first. The collection keeps its length.
\<close>

theorem moveFile_updates_matching:
  assumes "i < length (materials ed)"
      and "metadata (materials ed ! i) = Some md"
      and "editorPath md = Some ep"
      and "ep \<noteq> []"
      and "join [assetsDirectory ed, ep] = from"
  shows "length (materials (fst (snd (moveFile ed from to)))) = length (materials ed) \<and>
         materials (fst (snd (moveFile ed from to))) ! i =
           (materials ed ! i)\<lparr>metadata :=
              Some (md\<lparr>editorPath := Some (newEditorPath (assetsDirectory ed) to)\<rparr>)\<rparr> \<and>
         (\<forall>rs ts. rs \<noteq> [] \<and> ts \<noteq> [] \<and> (\<forall>s\<in>set rs. plain s) \<and> (\<forall>s\<in>set ts. plain s) \<and>
              assetsDirectory ed = CHR ''/'' # join_sep rs \<and>
              to = CHR ''/'' # join_sep (rs @ ts) \<longrightarrow>
            editorPath_of (materials (fst (snd (moveFile ed from to))) ! i) = Some (join_sep ts) \<and>
            relative_form (assetsDirectory ed) to (join_sep ts))"
proof -
  have m: "materials (fst (snd (moveFile ed from to))) ! i =
           (materials ed ! i)\<lparr>metadata :=
              Some (md\<lparr>editorPath := Some (newEditorPath (assetsDirectory ed) to)\<rparr>)\<rparr>"
    using assms by (simp add: moveFile_materials updated_match)
  have "editorPath_of (materials (fst (snd (moveFile ed from to))) ! i) = Some (join_sep ts) \<and>
        relative_form (assetsDirectory ed) to (join_sep ts)"
    if "rs \<noteq> []" "ts \<noteq> []" "\<forall>s\<in>set rs. plain s" "\<forall>s\<in>set ts. plain s"
       "assetsDirectory ed = CHR ''/'' # join_sep rs" "to = CHR ''/'' # join_sep (rs @ ts)"
    for rs ts
    using under_root_relative [OF that(1-4)] that(5,6) m by (simp add: editorPath_of_def)
  then show ?thesis
    using m by (simp add: moveFile_materials)
qed

theorem moveFile_updates_matching_witness:
  "join [''/proj/assets'', ''mats/old.material''] = ''/proj/assets/mats/old.material'' \<and>
   materials (fst (snd (moveFile
      \<lparr>materials =
         [\<lparr>name = ''a'', metadata = Some \<lparr>editorPath = Some ''mats/old.material'', members = []\<rparr>\<rparr>,
          \<lparr>name = ''b'', metadata = None\<rparr>,
          \<lparr>name = ''c'', metadata = Some \<lparr>editorPath = Some ''mats/old.material'',
                                            members = [(''k'', JNum (Finite 1))]\<rparr>\<rparr>],
       assetsDirectory = ''/proj/assets'',
       disk = \<lparr>content = (\<lambda>p. Missing), readFault = (\<lambda>p. False), writeFault = (\<lambda>p. WriteOk)\<rparr>\<rparr>
      ''/proj/assets/mats/old.material'' ''/proj/assets/mats/new.material''))) ! 2
    = \<lparr>name = ''c'', metadata = Some \<lparr>editorPath = Some ''mats/new.material'',
                                       members = [(''k'', JNum (Finite 1))]\<rparr>\<rparr> \<and>
   relative_form ''/proj/assets'' ''/proj/assets/mats/new.material'' ''mats/new.material''"
proof -
  have j: "join [''/proj/assets'', ''mats/old.material''] = ''/proj/assets/mats/old.material''"
    by code_simp
  have n: "newEditorPath ''/proj/assets'' ''/proj/assets/mats/new.material'' = ''mats/new.material''"
    by code_simp
  note h = moveFile_updates_matching [of 2
      "\<lparr>materials =
         [\<lparr>name = ''a'', metadata = Some \<lparr>editorPath = Some ''mats/old.material'', members = []\<rparr>\<rparr>,
          \<lparr>name = ''b'', metadata = None\<rparr>,
          \<lparr>name = ''c'', metadata = Some \<lparr>editorPath = Some ''mats/old.material'',
                                            members = [(''k'', JNum (Finite 1))]\<rparr>\<rparr>],
       assetsDirectory = ''/proj/assets'',
       disk = \<lparr>content = (\<lambda>p. Missing), readFault = (\<lambda>p. False), writeFault = (\<lambda>p. WriteOk)\<rparr>\<rparr>"
      "\<lparr>editorPath = Some ''mats/old.material'', members = [(''k'', JNum (Finite 1))]\<rparr>"
      "''mats/old.material''" "''/proj/assets/mats/old.material''"
      "''/proj/assets/mats/new.material''"]
  have a: "materials (fst (snd (moveFile
      \<lparr>materials =
         [\<lparr>name = ''a'', metadata = Some \<lparr>editorPath = Some ''mats/old.material'', members = []\<rparr>\<rparr>,
          \<lparr>name = ''b'', metadata = None\<rparr>,
          \<lparr>name = ''c'', metadata = Some \<lparr>editorPath = Some ''mats/old.material'',
                                            members = [(''k'', JNum (Finite 1))]\<rparr>\<rparr>],
       assetsDirectory = ''/proj/assets'',
       disk = \<lparr>content = (\<lambda>p. Missing), readFault = (\<lambda>p. False), writeFault = (\<lambda>p. WriteOk)\<rparr>\<rparr>
      ''/proj/assets/mats/old.material'' ''/proj/assets/mats/new.material''))) ! 2
    = \<lparr>name = ''c'', metadata = Some \<lparr>editorPath = Some ''mats/new.material'',
                                       members = [(''k'', JNum (Finite 1))]\<rparr>\<rparr>"
    using h [THEN conjunct2, THEN conjunct1] by (simp add: j n)
  have "relative_form ''/proj/assets'' ''/proj/assets/mats/new.material''
          (join_sep [''mats'', ''new.material''])"
    using h [THEN conjunct2, THEN conjunct2, THEN spec, THEN spec,
             of "[''proj'', ''assets'']" "[''mats'', ''new.material'']"]
    by (simp add: j plain_def)
  then show ?thesis
    using a j by simp
qed

text \<open>
  Claim C1 as it is written fails when \<open>to\<close> lies outside the assets directory: the
  material that resolved to \<open>from\<close> is given the absolute path \<open>to\<close>, which is not the
  form of \<open>to\<close> relative to the assets directory.
\<close>

theorem reference_moved_outside_root:
  "resolves_to ''/proj/assets''
      \<lparr>name = ''a'', metadata = Some \<lparr>editorPath = Some ''mats/old.material'', members = []\<rparr>\<rparr>
      ''/proj/assets/mats/old.material'' \<and>
   editorPath_of (materials (fst (snd (moveFile
      \<lparr>materials =
         [\<lparr>name = ''a'', metadata = Some \<lparr>editorPath = Some ''mats/old.material'', members = []\<rparr>\<rparr>],
       assetsDirectory = ''/proj/assets'',
       disk = \<lparr>content = (\<lambda>p. Missing), readFault = (\<lambda>p. False), writeFault = (\<lambda>p. WriteOk)\<rparr>\<rparr>
      ''/proj/assets/mats/old.material'' ''/proj/export/old.material''))) ! 0)
     = Some ''/proj/export/old.material'' \<and>
   join [''/proj/assets'', ''/proj/export/old.material''] = ''/proj/assets/proj/export/old.material'' \<and>
   \<not> relative_form ''/proj/assets'' ''/proj/export/old.material'' ''/proj/export/old.material''"
proof -
  have j: "join [''/proj/assets'', ''mats/old.material''] = ''/proj/assets/mats/old.material''"
    by code_simp
  have n: "newEditorPath ''/proj/assets'' ''/proj/export/old.material'' = ''/proj/export/old.material''"
    by code_simp
  have r: "join [''/proj/assets'', ''/proj/export/old.material'']
             = ''/proj/assets/proj/export/old.material''"
    by code_simp
  show ?thesis
    by (simp add: moveFile_materials updated_def callback_def resolves_to_def relative_form_def
        editorPath_of_def j n r)
qed

text \<open>
  Claim C2. A material with no \<open>editorPath\<close> (no metadata, or metadata without the
  member), or whose \<open>editorPath\<close> joined to the assets directory is another path than
  \<open>from\<close>, is after \<open>moveFile\<close> exactly what it was.
\<close>

theorem moveFile_keeps_other_references:
  assumes "i < length (materials ed)"
      and "editorPath_of (materials ed ! i) = None
           \<or> (\<exists>ep. editorPath_of (materials ed ! i) = Some ep \<and> join [assetsDirectory ed, ep] \<noteq> from)"
  shows "materials (fst (snd (moveFile ed from to))) ! i = materials ed ! i"
proof -
  have "updated (assetsDirectory ed) from (newEditorPath (assetsDirectory ed) to)
          (materials ed ! i) = materials ed ! i"
    using assms(2) by (intro updated_other) blast
  with assms(1) show ?thesis
    by (simp add: moveFile_materials)
qed

theorem moveFile_keeps_other_references_witness:
  "editorPath_of \<lparr>name = ''b'', metadata = None\<rparr> = None \<and>
   join [''/proj/assets'', ''mats/other.material''] \<noteq> ''/proj/assets/mats/old.material'' \<and>
   materials (fst (snd (moveFile
      \<lparr>materials =
         [\<lparr>name = ''a'', metadata = Some \<lparr>editorPath = Some ''mats/old.material'', members = []\<rparr>\<rparr>,
          \<lparr>name = ''b'', metadata = None\<rparr>,
          \<lparr>name = ''c'', metadata = Some \<lparr>editorPath = Some ''mats/other.material'', members = []\<rparr>\<rparr>],
       assetsDirectory = ''/proj/assets'',
       disk = \<lparr>content = (\<lambda>p. Missing), readFault = (\<lambda>p. False), writeFault = (\<lambda>p. WriteOk)\<rparr>\<rparr>
      ''/proj/assets/mats/old.material'' ''/proj/assets/mats/new.material''))) ! 1
    = \<lparr>name = ''b'', metadata = None\<rparr> \<and>
   materials (fst (snd (moveFile
      \<lparr>materials =
         [\<lparr>name = ''a'', metadata = Some \<lparr>editorPath = Some ''mats/old.material'', members = []\<rparr>\<rparr>,
          \<lparr>name = ''b'', metadata = None\<rparr>,
          \<lparr>name = ''c'', metadata = Some \<lparr>editorPath = Some ''mats/other.material'', members = []\<rparr>\<rparr>],
       assetsDirectory = ''/proj/assets'',
       disk = \<lparr>content = (\<lambda>p. Missing), readFault = (\<lambda>p. False), writeFault = (\<lambda>p. WriteOk)\<rparr>\<rparr>
      ''/proj/assets/mats/old.material'' ''/proj/assets/mats/new.material''))) ! 2
    = \<lparr>name = ''c'', metadata = Some \<lparr>editorPath = Some ''mats/other.material'', members = []\<rparr>\<rparr>"
proof -
  have j: "join [''/proj/assets'', ''mats/other.material''] = ''/proj/assets/mats/other.material''"
    by code_simp
  show ?thesis
    using moveFile_keeps_other_references [of 1
      "\<lparr>materials =
         [\<lparr>name = ''a'', metadata = Some \<lparr>editorPath = Some ''mats/old.material'', members = []\<rparr>\<rparr>,
          \<lparr>name = ''b'', metadata = None\<rparr>,
          \<lparr>name = ''c'', metadata = Some \<lparr>editorPath = Some ''mats/other.material'', members = []\<rparr>\<rparr>],
       assetsDirectory = ''/proj/assets'',
       disk = \<lparr>content = (\<lambda>p. Missing), readFault = (\<lambda>p. False), writeFault = (\<lambda>p. WriteOk)\<rparr>\<rparr>"
      "''/proj/assets/mats/old.material''" "''/proj/assets/mats/new.material''"]
    moveFile_keeps_other_references [of 2
      "\<lparr>materials =
         [\<lparr>name = ''a'', metadata = Some \<lparr>editorPath = Some ''mats/old.material'', members = []\<rparr>\<rparr>,
          \<lparr>name = ''b'', metadata = None\<rparr>,
          \<lparr>name = ''c'', metadata = Some \<lparr>editorPath = Some ''mats/other.material'', members = []\<rparr>\<rparr>],
       assetsDirectory = ''/proj/assets'',
       disk = \<lparr>content = (\<lambda>p. Missing), readFault = (\<lambda>p. False), writeFault = (\<lambda>p. WriteOk)\<rparr>\<rparr>"
      "''/proj/assets/mats/old.material''" "''/proj/assets/mats/new.material''"]
    by (simp add: editorPath_of_def j)
qed

text \<open>
  Claim C9. A material whose \<open>editorPath\<close> is present but is the empty string is skipped
  like one without \<open>editorPath\<close>: for every \<open>from\<close> and \<open>to\<close> it is left as it was, and
  \<open>moveFile\<close> resolves.
\<close>

theorem moveFile_skips_empty_editorPath:
  assumes "i < length (materials ed)"
      and "metadata (materials ed ! i) = Some md"
      and "editorPath md = Some []"
  shows "materials (fst (snd (moveFile ed from to))) ! i = materials ed ! i \<and>
         fst (moveFile ed from to) = Resolved"
proof -
  have "editorPath_of (materials ed ! i) = Some []"
    using assms(2,3) by (simp add: editorPath_of_def)
  then have "updated (assetsDirectory ed) from (newEditorPath (assetsDirectory ed) to)
          (materials ed ! i) = materials ed ! i"
    by (intro updated_other) blast
  with assms(1) show ?thesis
    by (simp add: moveFile_materials moveFile_outcome)
qed

theorem moveFile_skips_empty_editorPath_witness:
  "materials (fst (snd (moveFile
      \<lparr>materials = [\<lparr>name = ''a'', metadata = Some \<lparr>editorPath = Some [], members = []\<rparr>\<rparr>],
       assetsDirectory = ''/proj/assets'',
       disk = \<lparr>content = (\<lambda>p. Missing), readFault = (\<lambda>p. False), writeFault = (\<lambda>p. WriteOk)\<rparr>\<rparr>
      ''/proj/assets'' ''/proj/assets/mats/new.material''))) ! 0
    = \<lparr>name = ''a'', metadata = Some \<lparr>editorPath = Some [], members = []\<rparr>\<rparr> \<and>
   fst (moveFile
      \<lparr>materials = [\<lparr>name = ''a'', metadata = Some \<lparr>editorPath = Some [], members = []\<rparr>\<rparr>],
       assetsDirectory = ''/proj/assets'',
       disk = \<lparr>content = (\<lambda>p. Missing), readFault = (\<lambda>p. False), writeFault = (\<lambda>p. WriteOk)\<rparr>\<rparr>
      ''/proj/assets'' ''/proj/assets/mats/new.material'') = Resolved"
  using moveFile_skips_empty_editorPath [of 0
      "\<lparr>materials = [\<lparr>name = ''a'', metadata = Some \<lparr>editorPath = Some [], members = []\<rparr>\<rparr>],
       assetsDirectory = ''/proj/assets'',
       disk = \<lparr>content = (\<lambda>p. Missing), readFault = (\<lambda>p. False), writeFault = (\<lambda>p. WriteOk)\<rparr>\<rparr>"
      "\<lparr>editorPath = Some [], members = []\<rparr>"
      "''/proj/assets''" "''/proj/assets/mats/new.material''"]
  by simp

section \<open>Errors of the disk patch\<close>

text \<open>
  Claim C3. Whatever \<open>from\<close> and \<open>to\<close> are and whatever the file system holds or does
  (a missing file, text that is no document, a failing read or write), \<open>moveFile\<close>
  resolves and never rejects, and the materials it leaves are the ones it leaves on any
  other file system: the in-memory update does not depend on the fate of the disk patch.
\<close>

theorem moveFile_always_resolves:
  "fst (moveFile (ed\<lparr>disk := fs\<rparr>) from to) = Resolved \<and>
   materials (fst (snd (moveFile (ed\<lparr>disk := fs\<rparr>) from to))) =
     materials (fst (snd (moveFile ed from to)))"
  by (simp add: moveFile_outcome moveFile_materials)

theorem moveFile_always_resolves_witness:
  "readJSON \<lparr>content = (\<lambda>p. Malformed ''{ metadata''), readFault = (\<lambda>p. False),
             writeFault = (\<lambda>p. FailsBeforeOpen)\<rparr> ''/proj/assets/a.material'' = Inl SyntaxError \<and>
   fst (moveFile
      \<lparr>materials =
         [\<lparr>name = ''a'', metadata = Some \<lparr>editorPath = Some ''a.material'', members = []\<rparr>\<rparr>],
       assetsDirectory = ''/proj/assets'',
       disk = \<lparr>content = (\<lambda>p. Malformed ''{ metadata''), readFault = (\<lambda>p. False),
                writeFault = (\<lambda>p. FailsBeforeOpen)\<rparr>\<rparr>
      ''/proj/assets/a.material'' ''/proj/assets/b.material'') = Resolved \<and>
   materials (fst (snd (moveFile
      \<lparr>materials =
         [\<lparr>name = ''a'', metadata = Some \<lparr>editorPath = Some ''a.material'', members = []\<rparr>\<rparr>],
       assetsDirectory = ''/proj/assets'',
       disk = \<lparr>content = (\<lambda>p. Malformed ''{ metadata''), readFault = (\<lambda>p. False),
                writeFault = (\<lambda>p. FailsBeforeOpen)\<rparr>\<rparr>
      ''/proj/assets/a.material'' ''/proj/assets/b.material'')))
    = [\<lparr>name = ''a'', metadata = Some \<lparr>editorPath = Some ''b.material'', members = []\<rparr>\<rparr>]"
proof -
  have n: "newEditorPath ''/proj/assets'' ''/proj/assets/b.material'' = ''b.material''"
    by code_simp
  have j: "join [''/proj/assets'', ''a.material''] = ''/proj/assets/a.material''"
    by code_simp
  show ?thesis
    using moveFile_always_resolves [of
      "\<lparr>content = (\<lambda>p. Malformed ''{ metadata''), readFault = (\<lambda>p. False),
        writeFault = (\<lambda>p. FailsBeforeOpen)\<rparr>"
      "\<lparr>materials =
         [\<lparr>name = ''a'', metadata = Some \<lparr>editorPath = Some ''a.material'', members = []\<rparr>\<rparr>],
       assetsDirectory = ''/proj/assets'',
       disk = \<lparr>content = (\<lambda>p. Missing), readFault = (\<lambda>p. False), writeFault = (\<lambda>p. WriteOk)\<rparr>\<rparr>"
      "''/proj/assets/a.material''" "''/proj/assets/b.material''"]
    by (simp add: readJSON_def moveFile_materials updated_def callback_def n j)
qed

text \<open>
  Claim C4, as amended. When the document read from \<open>from\<close> has no \<open>metadata\<close>
  section (the member is absent, or holds a falsy value), \<open>moveFile\<close> still calls
  \<open>writeJSON\<close>, once, with the path \<open>from\<close> and the document as it was read; only for
  the document \<open>null\<close>, where reading \<open>json.metadata\<close> throws, nothing is written. In
  every case \<open>moveFile\<close> resolves.
\<close>

theorem no_metadata_document_rewritten:
  assumes "readJSON (disk ed) from = Inr json"
      and "json = JNull \<or> get_metadata json = Inr None
           \<or> (\<exists>md. get_metadata json = Inr (Some md) \<and> \<not> truthy md)"
  shows "fst (moveFile ed from to) = Resolved \<and>
         filter is_write (snd (snd (moveFile ed from to))) =
           (if json = JNull then [] else [WriteJSON from json json_options])"
proof -
  let ?n = "newEditorPath (assetsDirectory ed) to"
  have "filter is_write (snd (snd (moveFile ed from to))) =
           (if json = JNull then [] else [WriteJSON from json json_options])"
  proof (cases "json = JNull")
    case True
    with assms(1) have "try_block (disk ed) from ?n = (Inl TypeError, disk ed, [ReadJSON from])"
      by (simp add: try_block_def patch_def)
    with True show ?thesis
      by (simp add: moveFile_events scan_events_no_write)
  next
    case False
    with assms(2) have "patch json ?n = Inr json"
      by (auto simp add: patch_def)
    with assms(1) False show ?thesis
      by (simp add: moveFile_events try_block_patched scan_events_no_write)
  qed
  then show ?thesis
    by (simp add: moveFile_outcome)
qed

theorem no_metadata_document_rewritten_witness:
  "filter is_write (snd (snd (moveFile
      \<lparr>materials = [],
       assetsDirectory = ''/proj/assets'',
       disk = \<lparr>content = (\<lambda>p. if p = ''/proj/assets/a.material''
                               then Document (JObj [(''name'', JStr ''wood'')]) else Missing),
               readFault = (\<lambda>p. False), writeFault = (\<lambda>p. WriteOk)\<rparr>\<rparr>
      ''/proj/assets/a.material'' ''/proj/assets/b.material'')))
    = [WriteJSON ''/proj/assets/a.material'' (JObj [(''name'', JStr ''wood'')]) json_options] \<and>
   filter is_write (snd (snd (moveFile
      \<lparr>materials = [],
       assetsDirectory = ''/proj/assets'',
       disk = \<lparr>content = (\<lambda>p. if p = ''/proj/assets/a.material''
                               then Document (JObj [(''name'', JStr ''wood''), (''metadata'', JNull)]) else Missing),
               readFault = (\<lambda>p. False), writeFault = (\<lambda>p. WriteOk)\<rparr>\<rparr>
      ''/proj/assets/a.material'' ''/proj/assets/b.material'')))
    = [WriteJSON ''/proj/assets/a.material''
         (JObj [(''name'', JStr ''wood''), (''metadata'', JNull)]) json_options] \<and>
   filter is_write (snd (snd (moveFile
      \<lparr>materials = [],
       assetsDirectory = ''/proj/assets'',
       disk = \<lparr>content = (\<lambda>p. if p = ''/proj/assets/a.material''
                               then Document (JNull) else Missing),
               readFault = (\<lambda>p. False), writeFault = (\<lambda>p. WriteOk)\<rparr>\<rparr>
      ''/proj/assets/a.material'' ''/proj/assets/b.material''))) = []"
  using no_metadata_document_rewritten [of
      "\<lparr>materials = [],
       assetsDirectory = ''/proj/assets'',
       disk = \<lparr>content = (\<lambda>p. if p = ''/proj/assets/a.material''
                               then Document (JObj [(''name'', JStr ''wood'')]) else Missing),
               readFault = (\<lambda>p. False), writeFault = (\<lambda>p. WriteOk)\<rparr>\<rparr>"
      "''/proj/assets/a.material''" "JObj [(''name'', JStr ''wood'')]" "''/proj/assets/b.material''"]
    no_metadata_document_rewritten [of
      "\<lparr>materials = [],
       assetsDirectory = ''/proj/assets'',
       disk = \<lparr>content = (\<lambda>p. if p = ''/proj/assets/a.material''
                               then Document (JObj [(''name'', JStr ''wood''), (''metadata'', JNull)]) else Missing),
               readFault = (\<lambda>p. False), writeFault = (\<lambda>p. WriteOk)\<rparr>\<rparr>"
      "''/proj/assets/a.material''" "JObj [(''name'', JStr ''wood''), (''metadata'', JNull)]"
      "''/proj/assets/b.material''"]
    no_metadata_document_rewritten [of
      "\<lparr>materials = [],
       assetsDirectory = ''/proj/assets'',
       disk = \<lparr>content = (\<lambda>p. if p = ''/proj/assets/a.material''
                               then Document (JNull) else Missing),
               readFault = (\<lambda>p. False), writeFault = (\<lambda>p. WriteOk)\<rparr>\<rparr>"
      "''/proj/assets/a.material''" "JNull" "''/proj/assets/b.material''"]
  by (simp add: readJSON_def)

text \<open>
  Claim C4 as it is written fails: the call of \<open>writeJSON\<close> stands after the \<open>if\<close>,
  not inside it, so a document without \<open>metadata\<close> is written too.
\<close>

theorem write_without_metadata:
  "readJSON \<lparr>content = (\<lambda>p. if p = ''/proj/assets/a.material''
                               then Document (JObj [(''name'', JStr ''wood'')]) else Missing),
               readFault = (\<lambda>p. False), writeFault = (\<lambda>p. WriteOk)\<rparr> ''/proj/assets/a.material''
     = Inr (JObj [(''name'', JStr ''wood'')]) \<and>
   map_of [(''name'', JStr ''wood'')] ''metadata'' = None \<and>
   snd (snd (moveFile
      \<lparr>materials = [],
       assetsDirectory = ''/proj/assets'',
       disk = \<lparr>content = (\<lambda>p. if p = ''/proj/assets/a.material''
                               then Document (JObj [(''name'', JStr ''wood'')]) else Missing),
               readFault = (\<lambda>p. False), writeFault = (\<lambda>p. WriteOk)\<rparr>\<rparr>
      ''/proj/assets/a.material'' ''/proj/assets/b.material''))
    = [ReadJSON ''/proj/assets/a.material'',
       WriteJSON ''/proj/assets/a.material'' (JObj [(''name'', JStr ''wood'')])
         \<lparr>spaces = [CHR 0x09], encoding = ''utf-8''\<rparr>]"
  by (simp add: moveFile_events try_block_def readJSON_def patch_def json_options_def)

section \<open>The document on disk\<close>

text \<open>
  Claim C7. When the document at \<open>from\<close> is read and has a \<open>metadata\<close> section (an
  object under the key \<open>metadata\<close>), \<open>moveFile\<close> makes one write: to the old path
  \<open>from\<close>, with tab indentation and the encoding utf-8, of the document whose
  \<open>metadata.editorPath\<close> is the new path. Every other member of \<open>metadata\<close> and every
  other member of the document is as it was read, the keys of the document stay in their
  order. After a write that succeeds the file system holds this document, as its text
  reads back, at \<open>from\<close>; after one that fails it holds at \<open>from\<close> what it held or
  what part of the text was written; at every other path, \<open>to\<close> included, it holds
  what it held.
\<close>

theorem metadata_document_patched:
  fixes ed :: editor and "from" to :: path
  defines "n \<equiv> newEditorPath (assetsDirectory ed) to"
  assumes "readJSON (disk ed) from = Inr (JObj kvs)"
      and "map_of kvs ''metadata'' = Some (JObj mkvs)"
  defines "md' \<equiv> set_member ''editorPath'' (JStr n) mkvs"
  defines "doc' \<equiv> JObj (set_member ''metadata'' (JObj md') kvs)"
  shows "filter is_write (snd (snd (moveFile ed from to))) =
           [WriteJSON from doc' \<lparr>spaces = [CHR 0x09], encoding = ''utf-8''\<rparr>] \<and>
         map_of md' ''editorPath'' = Some (JStr n) \<and>
         (\<forall>k. k \<noteq> ''editorPath'' \<longrightarrow> map_of md' k = map_of mkvs k) \<and>
         (\<forall>k. k \<noteq> ''metadata'' \<longrightarrow> map_of (set_member ''metadata'' (JObj md') kvs) k = map_of kvs k) \<and>
         map fst (set_member ''metadata'' (JObj md') kvs) = map fst kvs \<and>
         content (disk (fst (snd (moveFile ed from to)))) =
           (case writeFault (disk ed) from of
              WriteOk \<Rightarrow> (content (disk ed))(from := Document (as_written doc'))
            | FailsBeforeOpen \<Rightarrow> content (disk ed)
            | FailsAfterTruncate c \<Rightarrow> (content (disk ed))(from := c))"
proof -
  have tb: "try_block (disk ed) from n =
      (fst (writeJSON (disk ed) from doc' json_options),
       snd (writeJSON (disk ed) from doc' json_options),
       [ReadJSON from, WriteJSON from doc' json_options])"
    using assms(2,3) by (simp add: try_block_patched patch_object doc'_def md'_def)
  have w: "filter is_write (snd (snd (moveFile ed from to))) = [WriteJSON from doc' json_options]"
    using tb by (simp add: moveFile_events scan_events_no_write n_def)
  have d: "content (disk (fst (snd (moveFile ed from to)))) =
           (case writeFault (disk ed) from of
              WriteOk \<Rightarrow> (content (disk ed))(from := Document (as_written doc'))
            | FailsBeforeOpen \<Rightarrow> content (disk ed)
            | FailsAfterTruncate c \<Rightarrow> (content (disk ed))(from := c))"
    using tb by (simp add: moveFile_disk writeJSON_def n_def split: write_fault.splits)
  have k: "''metadata'' \<in> fst ` set kvs"
    using assms(3) by (metis domI dom_map_of_conv_image_fst)
  from w d k show ?thesis
    by (simp add: map_of_set_member keys_set_member json_options_def md'_def)
qed

theorem metadata_document_patched_witness:
  "filter is_write (snd (snd (moveFile
      \<lparr>materials = [],
       assetsDirectory = ''/proj/assets'',
       disk = \<lparr>content = (\<lambda>p. if p = ''/proj/assets/a.material''
                 then Document (JObj [(''name'', JStr ''wood''),
                        (''metadata'', JObj [(''editorPath'', JStr ''a.material''), (''tags'', JArr [])])])
                 else Missing),
               readFault = (\<lambda>p. False), writeFault = (\<lambda>p. WriteOk)\<rparr>\<rparr>
      ''/proj/assets/a.material'' ''/proj/assets/b.material'')))
    = [WriteJSON ''/proj/assets/a.material''
         (JObj [(''name'', JStr ''wood''),
                (''metadata'', JObj [(''editorPath'', JStr ''b.material''), (''tags'', JArr [])])])
         \<lparr>spaces = [CHR 0x09], encoding = ''utf-8''\<rparr>] \<and>
   content (disk (fst (snd (moveFile
      \<lparr>materials = [],
       assetsDirectory = ''/proj/assets'',
       disk = \<lparr>content = (\<lambda>p. if p = ''/proj/assets/a.material''
                 then Document (JObj [(''name'', JStr ''wood''),
                        (''metadata'', JObj [(''editorPath'', JStr ''a.material''), (''tags'', JArr [])])])
                 else Missing),
               readFault = (\<lambda>p. False), writeFault = (\<lambda>p. WriteOk)\<rparr>\<rparr>
      ''/proj/assets/a.material'' ''/proj/assets/b.material'')))) ''/proj/assets/b.material'' = Missing"
proof -
  have n: "newEditorPath ''/proj/assets'' ''/proj/assets/b.material'' = ''b.material''"
    by code_simp
  show ?thesis
    using metadata_document_patched [of
      "\<lparr>materials = [],
       assetsDirectory = ''/proj/assets'',
       disk = \<lparr>content = (\<lambda>p. if p = ''/proj/assets/a.material''
                 then Document (JObj [(''name'', JStr ''wood''),
                        (''metadata'', JObj [(''editorPath'', JStr ''a.material''), (''tags'', JArr [])])])
                 else Missing),
               readFault = (\<lambda>p. False), writeFault = (\<lambda>p. WriteOk)\<rparr>\<rparr>"
      "''/proj/assets/a.material''"
      "[(''name'', JStr ''wood''),
        (''metadata'', JObj [(''editorPath'', JStr ''a.material''), (''tags'', JArr [])])]"
      "[(''editorPath'', JStr ''a.material''), (''tags'', JArr [])]"
      "''/proj/assets/b.material''"]
    by (simp add: readJSON_def n)
qed

section \<open>Order of the effects\<close>

text \<open>
  Claim C8. In every run of \<open>moveFile\<close> the events fall into the assignments to the
  materials, then the read of the document at \<open>from\<close>, then the rest: replaying the
  assignments on the materials of the start gives the materials of the end, so the
  in-memory update is complete when the read begins, and nothing after the read
  touches a material.
\<close>

theorem mutation_precedes_disk:
  "\<exists>ms ds. snd (snd (moveFile ed from to)) = ms @ ReadJSON from # ds \<and>
           filter is_mutation ms = ms \<and>
           foldl apply_event (materials ed) ms = materials (fst (snd (moveFile ed from to))) \<and>
           filter is_mutation ds = []"
proof -
  let ?n = "newEditorPath (assetsDirectory ed) to"
  let ?ms = "snd (forEach (callback (assetsDirectory ed) from ?n) 0 (materials ed))"
  obtain ds where ds: "snd (snd (try_block (disk ed) from ?n)) = ReadJSON from # ds"
    and nm: "filter is_mutation ds = []"
    using try_block_events by blast
  have "snd (snd (moveFile ed from to)) = ?ms @ ReadJSON from # ds"
    by (simp add: moveFile_events ds)
  moreover have "filter is_mutation ?ms = ?ms"
    by (rule scan_events_mutations)
  moreover have "foldl apply_event (materials ed) ?ms = materials (fst (snd (moveFile ed from to)))"
    using scan_replay [of "[]" "materials ed"] by (simp add: moveFile_materials)
  ultimately show ?thesis
    using nm by blast
qed

section \<open>Running the handler twice\<close>

text \<open>
  Claim C5, as amended. A second \<open>moveFile\<close> with the same \<open>from\<close> and \<open>to\<close> leaves
  the materials, the assets directory and the file system exactly as the first left
  them. The scan of the second run assigns to no material when the new path is empty or,
  joined to the assets directory, is another path than \<open>from\<close>; otherwise the materials
  updated by the first run match again and are assigned the value they already hold.
\<close>

theorem moveFile_twice:
  "fst (snd (moveFile (fst (snd (moveFile ed from to))) from to)) = fst (snd (moveFile ed from to)) \<and>
   (newEditorPath (assetsDirectory ed) to = []
      \<or> join [assetsDirectory ed, newEditorPath (assetsDirectory ed) to] \<noteq> from \<longrightarrow>
    filter is_mutation (snd (snd (moveFile (fst (snd (moveFile ed from to))) from to))) = [])"
proof -
  let ?n = "newEditorPath (assetsDirectory ed) to"
  let ?ed1 = "fst (snd (moveFile ed from to))"
  obtain ds where ds: "snd (snd (try_block (disk ?ed1) from ?n)) = ReadJSON from # ds"
    and nm: "filter is_mutation ds = []"
    using try_block_events by blast
  have "filter is_mutation (snd (snd (moveFile ?ed1 from to))) = []"
    if "?n = [] \<or> join [assetsDirectory ed, ?n] \<noteq> from"
    using scan_no_match [OF that] ds nm
    by (simp add: moveFile_events [of ?ed1] moveFile_assetsDirectory moveFile_materials)
  then show ?thesis
    using moveFile_twice_state by blast
qed

theorem moveFile_twice_witness:
  "join [''/proj/assets'', newEditorPath ''/proj/assets'' ''/proj/assets/mats/new.material'']
     \<noteq> ''/proj/assets/mats/old.material'' \<and>
   filter is_mutation (snd (snd (moveFile (fst (snd (moveFile
      \<lparr>materials =
         [\<lparr>name = ''a'', metadata = Some \<lparr>editorPath = Some ''mats/old.material'', members = []\<rparr>\<rparr>],
       assetsDirectory = ''/proj/assets'',
       disk = \<lparr>content = (\<lambda>p. Missing), readFault = (\<lambda>p. False), writeFault = (\<lambda>p. WriteOk)\<rparr>\<rparr>
      ''/proj/assets/mats/old.material'' ''/proj/assets/mats/new.material'')))
      ''/proj/assets/mats/old.material'' ''/proj/assets/mats/new.material''))) = []"
proof -
  have n: "newEditorPath ''/proj/assets'' ''/proj/assets/mats/new.material'' = ''mats/new.material''"
    by code_simp
  have j: "join [''/proj/assets'', ''mats/new.material''] = ''/proj/assets/mats/new.material''"
    by code_simp
  show ?thesis
    using moveFile_twice [of
      "\<lparr>materials =
         [\<lparr>name = ''a'', metadata = Some \<lparr>editorPath = Some ''mats/old.material'', members = []\<rparr>\<rparr>],
       assetsDirectory = ''/proj/assets'',
       disk = \<lparr>content = (\<lambda>p. Missing), readFault = (\<lambda>p. False), writeFault = (\<lambda>p. WriteOk)\<rparr>\<rparr>"
      "''/proj/assets/mats/old.material''" "''/proj/assets/mats/new.material''"]
    by (simp add: n j)
qed

text \<open>
  Claim C5 as it is written fails in its last part: with \<open>to\<close> equal to \<open>from\<close> the
  material updated by the first run still resolves to \<open>from\<close>, and the second scan
  matches it.
\<close>

theorem second_scan_matches_again:
  "filter is_mutation (snd (snd (moveFile (fst (snd (moveFile
      \<lparr>materials =
         [\<lparr>name = ''a'', metadata = Some \<lparr>editorPath = Some ''a.material'', members = []\<rparr>\<rparr>],
       assetsDirectory = ''/proj/assets'',
       disk = \<lparr>content = (\<lambda>p. Missing), readFault = (\<lambda>p. False), writeFault = (\<lambda>p. WriteOk)\<rparr>\<rparr>
      ''/proj/assets/a.material'' ''/proj/assets/a.material'')))
      ''/proj/assets/a.material'' ''/proj/assets/a.material'')))
    = [SetEditorPath 0 ''a.material'']"
proof -
  have n: "newEditorPath ''/proj/assets'' ''/proj/assets/a.material'' = ''a.material''"
    by code_simp
  have j: "join [''/proj/assets'', ''a.material''] = ''/proj/assets/a.material''"
    by code_simp
  show ?thesis
    by (simp add: moveFile_events moveFile_materials moveFile_assetsDirectory moveFile_disk
        updated_def callback_def try_block_def readJSON_def n j)
qed

section \<open>The new path\<close>

text \<open>
  Claim C6, as amended. For an assets directory \<open>/r1/.../rn\<close> and a destination
  \<open>/r1/.../rn/t1/.../tm\<close> below it (at least one segment each, every segment a plain
  name), the new path is \<open>t1/.../tm\<close>: the destination made relative to the assets
  directory, which joined to the assets directory is the destination again.
\<close>

theorem newEditorPath_under_root:
  assumes "rs \<noteq> []" and "ts \<noteq> []"
      and "\<forall>s\<in>set rs. plain s" and "\<forall>s\<in>set ts. plain s"
      and "assetsDir = CHR ''/'' # join_sep rs"
      and "to = CHR ''/'' # join_sep (rs @ ts)"
  shows "newEditorPath assetsDir to = join_sep ts \<and>
         relative_form assetsDir to (newEditorPath assetsDir to)"
proof -
  have t: "to = join [assetsDir, ''/''] @ join_sep ts"
    using assms by (simp add: join_root_separator join_sep_append)
  then have n: "newEditorPath assetsDir to = join_sep ts"
    by (rule newEditorPath_under)
  have ne: "join_sep ts \<noteq> []"
    using assms(2,4) by (rule join_sep_nonempty)
  have "join [assetsDir, join_sep ts] = normalize (CHR ''/'' # join_sep (rs @ ts))"
    using assms(1,2,5) ne by (simp add: join_def join_sep_append)
  also have "\<dots> = to"
    using normalize_absolute [of "rs @ ts"] assms(1,3,4,6) by auto
  finally have "join [assetsDir, join_sep ts] = to" .
  moreover have "take 1 (join_sep ts) \<noteq> ''/''"
    using assms(2,4) by (rule join_sep_first)
  ultimately show ?thesis
    using n by (simp add: relative_form_def)
qed

theorem newEditorPath_under_root_witness:
  "newEditorPath ''/proj/assets'' ''/proj/assets/mats/new.material'' = ''mats/new.material'' \<and>
   relative_form ''/proj/assets'' ''/proj/assets/mats/new.material''
     (newEditorPath ''/proj/assets'' ''/proj/assets/mats/new.material'')"
  using newEditorPath_under_root [of "[''proj'', ''assets'']" "[''mats'', ''new.material'']"
      "''/proj/assets''" "''/proj/assets/mats/new.material''"]
  by (auto simp add: plain_def)

text \<open>
  Claim C6 as it is written fails for a destination outside the assets directory: the
  pattern does not occur, the new path is the absolute destination itself, and joined to
  the assets directory it is another path.
\<close>

theorem newEditorPath_outside_root_not_relative:
  "newEditorPath ''/proj/assets'' ''/proj/scenes/new.material'' = ''/proj/scenes/new.material'' \<and>
   join [''/proj/assets'', ''/proj/scenes/new.material''] = ''/proj/assets/proj/scenes/new.material'' \<and>
   \<not> relative_form ''/proj/assets'' ''/proj/scenes/new.material''
       (newEditorPath ''/proj/assets'' ''/proj/scenes/new.material'')"
proof -
  have n: "newEditorPath ''/proj/assets'' ''/proj/scenes/new.material'' = ''/proj/scenes/new.material''"
    by code_simp
  have j: "join [''/proj/assets'', ''/proj/scenes/new.material'']
             = ''/proj/assets/proj/scenes/new.material''"
    by code_simp
  show ?thesis
    by (simp add: n j relative_form_def)
qed

text \<open>
  Claim C10, as amended. If the normalised assets directory followed by a separator
  occurs nowhere in \<open>to\<close>, the new path is the string \<open>to\<close> itself: every matching
  material gets \<open>to\<close> as its \<open>editorPath\<close>, and a document with a \<open>metadata\<close> section
  is written with \<open>to\<close> as its \<open>metadata.editorPath\<close>.
\<close>

theorem destination_without_root_stored_whole:
  assumes "\<not> occurs_in to (join [assetsDirectory ed, ''/''])"
  shows "newEditorPath (assetsDirectory ed) to = to \<and>
         (\<forall>i md ep. i < length (materials ed) \<and> metadata (materials ed ! i) = Some md \<and>
              editorPath md = Some ep \<and> ep \<noteq> [] \<and> join [assetsDirectory ed, ep] = from \<longrightarrow>
            editorPath_of (materials (fst (snd (moveFile ed from to))) ! i) = Some to) \<and>
         (\<forall>kvs mkvs. readJSON (disk ed) from = Inr (JObj kvs) \<and>
              map_of kvs ''metadata'' = Some (JObj mkvs) \<longrightarrow>
            filter is_write (snd (snd (moveFile ed from to))) =
              [WriteJSON from
                 (JObj (set_member ''metadata'' (JObj (set_member ''editorPath'' (JStr to) mkvs)) kvs))
                 json_options])"
proof -
  have n: "newEditorPath (assetsDirectory ed) to = to"
    using assms by (rule newEditorPath_absent)
  have "editorPath_of (materials (fst (snd (moveFile ed from to))) ! i) = Some to"
    if "i < length (materials ed)" "metadata (materials ed ! i) = Some md"
       "editorPath md = Some ep" "ep \<noteq> []" "join [assetsDirectory ed, ep] = from"
    for i md ep
    using that n by (simp add: moveFile_materials updated_match editorPath_of_def)
  moreover have "filter is_write (snd (snd (moveFile ed from to))) =
              [WriteJSON from
                 (JObj (set_member ''metadata'' (JObj (set_member ''editorPath'' (JStr to) mkvs)) kvs))
                 json_options]"
    if "readJSON (disk ed) from = Inr (JObj kvs)" "map_of kvs ''metadata'' = Some (JObj mkvs)"
    for kvs mkvs
    using that n by (simp add: moveFile_events try_block_patched patch_object scan_events_no_write)
  ultimately show ?thesis
    using n by blast
qed

theorem destination_without_root_stored_whole_witness:
  "\<not> occurs_in ''/proj/scenes/b.material'' (join [''/proj/assets'', ''/'']) \<and>
   editorPath_of (materials (fst (snd (moveFile
      \<lparr>materials =
         [\<lparr>name = ''a'', metadata = Some \<lparr>editorPath = Some ''a.material'', members = []\<rparr>\<rparr>],
       assetsDirectory = ''/proj/assets'',
       disk = \<lparr>content = (\<lambda>p. if p = ''/proj/assets/a.material''
                 then Document (JObj [(''metadata'', JObj [(''editorPath'', JStr ''a.material'')])])
                 else Missing),
               readFault = (\<lambda>p. False), writeFault = (\<lambda>p. WriteOk)\<rparr>\<rparr>
      ''/proj/assets/a.material'' ''/proj/scenes/b.material''))) ! 0)
     = Some ''/proj/scenes/b.material'' \<and>
   filter is_write (snd (snd (moveFile
      \<lparr>materials =
         [\<lparr>name = ''a'', metadata = Some \<lparr>editorPath = Some ''a.material'', members = []\<rparr>\<rparr>],
       assetsDirectory = ''/proj/assets'',
       disk = \<lparr>content = (\<lambda>p. if p = ''/proj/assets/a.material''
                 then Document (JObj [(''metadata'', JObj [(''editorPath'', JStr ''a.material'')])])
                 else Missing),
               readFault = (\<lambda>p. False), writeFault = (\<lambda>p. WriteOk)\<rparr>\<rparr>
      ''/proj/assets/a.material'' ''/proj/scenes/b.material'')))
     = [WriteJSON ''/proj/assets/a.material''
          (JObj [(''metadata'', JObj [(''editorPath'', JStr ''/proj/scenes/b.material'')])])
          json_options]"
proof -
  have r: "join [''/proj/assets'', ''/''] = ''/proj/assets/''"
    by code_simp
  have o: "\<not> occurs_in ''/proj/scenes/b.material'' ''/proj/assets/''"
    by code_simp
  have j: "join [''/proj/assets'', ''a.material''] = ''/proj/assets/a.material''"
    by code_simp
  show ?thesis
    using destination_without_root_stored_whole [of "''/proj/scenes/b.material''"
      "\<lparr>materials =
         [\<lparr>name = ''a'', metadata = Some \<lparr>editorPath = Some ''a.material'', members = []\<rparr>\<rparr>],
       assetsDirectory = ''/proj/assets'',
       disk = \<lparr>content = (\<lambda>p. if p = ''/proj/assets/a.material''
                 then Document (JObj [(''metadata'', JObj [(''editorPath'', JStr ''a.material'')])])
                 else Missing),
               readFault = (\<lambda>p. False), writeFault = (\<lambda>p. WriteOk)\<rparr>\<rparr>"
      "''/proj/assets/a.material''"]
    by (simp add: r o j readJSON_def)
qed

text \<open>
  Claim C10 as it is written fails: \<open>replace\<close> removes the first occurrence of the
  pattern wherever it stands, so a destination that does not begin with the assets
  directory but contains it further on is stored with that occurrence cut out.
\<close>

theorem root_inside_destination_removed:
  "take (length (''/proj/assets'' @ ''/'')) ''/backup/proj/assets/mats/a.material''
     \<noteq> ''/proj/assets'' @ ''/'' \<and>
   newEditorPath ''/proj/assets'' ''/backup/proj/assets/mats/a.material'' = ''/backupmats/a.material'' \<and>
   editorPath_of (materials (fst (snd (moveFile
      \<lparr>materials =
         [\<lparr>name = ''a'', metadata = Some \<lparr>editorPath = Some ''mats/a.material'', members = []\<rparr>\<rparr>],
       assetsDirectory = ''/proj/assets'',
       disk = \<lparr>content = (\<lambda>p. Missing), readFault = (\<lambda>p. False), writeFault = (\<lambda>p. WriteOk)\<rparr>\<rparr>
      ''/proj/assets/mats/a.material'' ''/backup/proj/assets/mats/a.material''))) ! 0)
     = Some ''/backupmats/a.material''"
proof -
  have n: "newEditorPath ''/proj/assets'' ''/backup/proj/assets/mats/a.material''
             = ''/backupmats/a.material''"
    by code_simp
  have j: "join [''/proj/assets'', ''mats/a.material''] = ''/proj/assets/mats/a.material''"
    by code_simp
  show ?thesis
    by (simp add: moveFile_materials updated_def callback_def editorPath_of_def n j)
qed

end
